theory Spec2Isabelle
  imports Complex_Main "HOL-Library.Word"
begin

section \<open>The client controller of static/script.js\<close>

text \<open>
  The script keeps two globals (\<open>authToken\<close>, \<open>currentUser\<close>), mirrors them into
  \<open>localStorage\<close> and projects everything else into the page. The model is a record of
  the globals, the storage and the parts of the page the functions below write to.
  Every \<open>async\<close> function is split at its first \<open>await\<close>: the part before it returns
  the new state and the request it issues (if any); the part after it
  (\<open>_resume\<close>) takes the state at the moment the response arrives and what \<open>fetch\<close>
  produced. Between the two parts any other handler may run, as in the event loop.

  The texts of the chat (the input field, the questions, the answers and the contents
  of the messages) are lists of UTF-16 code units, as the script's strings are: \<open>trim\<close>
  looks at their code units. The other strings (credentials, storage entries, form
  fields, banner texts) are only stored, compared with the empty string or measured; they
  are \<open>char list\<close>, one \<open>char\<close> for one code unit below 256.
\<close>

subsection \<open>Data\<close>

type_synonym code_unit = "16 word"

type_synonym js_string = "code_unit list"

text \<open>A string literal of the script that is ASCII, as a chat text.\<close>

definition ascii :: "string \<Rightarrow> js_string" where
  "ascii txt = map of_char txt"

text \<open>A value as \<open>JSON.parse\<close> returns it; \<open>JNull\<close> is the script's \<open>null\<close>.\<close>

datatype json =
    JNull
  | JBool bool
  | JNum real
  | JStr string
  | JArr "json list"
  | JObj "(string \<times> json) list"

text \<open>A citation of an answer. The script only renders it.\<close>

record source =
  filename :: string
  similarity :: real
  content_preview :: string

datatype role = User | Assistant | System

text \<open>
  One child of \<open>#chat-messages\<close>, as \<open>addMessage\<close> builds it. The sources block is
  rendered only for a non-empty list, so a message without sources and a message with
  \<open>[]\<close> are the same element: \<open>msg_sources = []\<close>.
\<close>

record message =
  msg_role :: role
  msg_content :: js_string
  msg_sources :: "source list"

datatype message_kind = Error | Success

text \<open>An entry of the file input: the script reads only \<open>file.type\<close>.\<close>

record upload_file =
  file_name :: string
  file_type :: string

text \<open>One item of \<open>result.history\<close>.\<close>

record history_item =
  item_message :: js_string
  item_response :: js_string
  item_sources :: "source list option"

text \<open>The bodies the script reads after \<open>response.json()\<close>, with the fields it reads.\<close>

record login_result =
  access_token :: string
  user_info :: json
  login_detail :: "string option"

record ask_result =
  answer :: js_string
  ask_sources :: "source list option"
  ask_detail :: "js_string option"

record history_result =
  history :: "history_item list option"

text \<open>
  What the awaits of a handler produce together: \<open>Failed\<close> when \<open>fetch\<close> or
  \<open>response.json()\<close> rejects (the \<open>catch\<close> branch), otherwise \<open>response.ok\<close> and the
  parsed body (\<open>unit\<close> where the handler does not read the body).
\<close>

datatype 'a fetched = Failed | Fetched bool 'a

text \<open>The requests, with the value of the \<open>Authorization\<close> header where one is sent.\<close>

datatype request =
    Login string string
  | Register string string string string
  | Upload string "upload_file list"
  | ListDocuments string
  | Ask string js_string nat
  | History string nat
  | Clear string

datatype js_error = SyntaxError

record app_state =
  authToken :: "string option"
  currentUser :: json
  localStorage :: "string \<rightharpoonup> string"
  chat_messages :: "message list"
  chat_input :: js_string
  send_btn_disabled :: bool
  auth_message :: "(string \<times> message_kind) option"
  loading :: bool
  auth_section_display :: string
  main_section_display :: string
  enter_listener :: bool

subsection \<open>Platform behaviour the script relies on\<close>

text \<open>Truthiness of what \<open>localStorage.getItem\<close> returns: \<open>null\<close> and \<open>""\<close> are falsy.\<close>

definition truthy :: "string option \<Rightarrow> bool" where
  "truthy v = (case v of None \<Rightarrow> False | Some x \<Rightarrow> x \<noteq> [])"

text \<open>
  \<open>String.prototype.trim\<close> removes, from both ends, the code units that ECMAScript
  calls white space or line terminator: TAB, LF, VT, FF, CR, SP, NBSP (U+00A0), the other
  space separators of Unicode (U+1680, U+2000 to U+200A, U+202F, U+205F, U+3000), the
  line and paragraph separators (U+2028, U+2029) and the byte order mark (U+FEFF). All
  of them are single code units.
\<close>

definition white_space :: "code_unit \<Rightarrow> bool" where
  "white_space c =
     (c \<in> set [0x0009, 0x000A, 0x000B, 0x000C, 0x000D, 0x0020, 0x00A0, 0x1680,
               0x2000, 0x2001, 0x2002, 0x2003, 0x2004, 0x2005, 0x2006, 0x2007, 0x2008,
               0x2009, 0x200A, 0x2028, 0x2029, 0x202F, 0x205F, 0x3000, 0xFEFF])"

definition trim :: "js_string \<Rightarrow> js_string" where
  "trim txt = rev (dropWhile white_space (rev (dropWhile white_space txt)))"

text \<open>The template \<open>`Bearer ${authToken}`\<close>; a \<open>null\<close> token prints as \<open>null\<close>.\<close>

definition bearer :: "string option \<Rightarrow> string" where
  "bearer t = ''Bearer '' @ (case t of None \<Rightarrow> ''null'' | Some x \<Rightarrow> x)"

text \<open>\<open>detail || fallback\<close>: an absent or empty detail gives the fallback.\<close>

definition or_else :: "string option \<Rightarrow> string \<Rightarrow> string" where
  "or_else d fallback = (case d of None \<Rightarrow> fallback | Some x \<Rightarrow> if x = [] then fallback else x)"

text \<open>The template \<open>`Error: ${result.detail}`\<close>; an absent detail prints as \<open>undefined\<close>.\<close>

definition error_text :: "js_string option \<Rightarrow> js_string" where
  "error_text d = ascii ''Error: '' @ (case d of None \<Rightarrow> ascii ''undefined'' | Some x \<Rightarrow> x)"

subsection \<open>Utility functions (lines 347-364)\<close>

text \<open>The timer that hides the banner after five seconds is not modelled.\<close>

definition showMessage :: "string \<Rightarrow> message_kind \<Rightarrow> app_state \<Rightarrow> app_state" where
  "showMessage txt kind s = s\<lparr>auth_message := Some (txt, kind)\<rparr>"

definition showLoading :: "bool \<Rightarrow> app_state \<Rightarrow> app_state" where
  "showLoading show s = s\<lparr>loading := show\<rparr>"

subsection \<open>Chat messages (lines 276-300)\<close>

definition addMessage :: "role \<Rightarrow> js_string \<Rightarrow> source list option \<Rightarrow> app_state \<Rightarrow> app_state" where
  "addMessage r content srcs s =
     s\<lparr>chat_messages := chat_messages s @
         [\<lparr>msg_role = r, msg_content = content,
           msg_sources = (case srcs of None \<Rightarrow> [] | Some xs \<Rightarrow> xs)\<rparr>]\<rparr>"

subsection \<open>Session (lines 1-25, 41-85, 138-163)\<close>

text \<open>The text of \<open>#user-name\<close> is not modelled.\<close>

definition showMainApp :: "app_state \<Rightarrow> app_state" where
  "showMainApp s = s\<lparr>auth_section_display := ''none'', main_section_display := ''block''\<rparr>"

text \<open>
  The page right after loading, before any handler has run: both globals are \<open>null\<close>
  (lines 2-3), the storage is what earlier visits left. The markup is not among the
  sources; the page starts with no message, an empty input, the button enabled and the
  sign-in section shown (what \<open>logout\<close> goes back to).
\<close>

definition page_load :: "(string \<rightharpoonup> string) \<Rightarrow> app_state" where
  "page_load storage =
     \<lparr>authToken = None, currentUser = JNull, localStorage = storage,
      chat_messages = [], chat_input = [], send_btn_disabled = False,
      auth_message = None, loading = False,
      auth_section_display = ''flex'', main_section_display = ''none'',
      enter_listener = False\<rparr>"

text \<open>
  The \<open>DOMContentLoaded\<close> handler. \<open>JSON.parse\<close> is the platform's: \<open>None\<close> is its
  \<open>SyntaxError\<close>, which nothing in the handler catches, so the handler ends there,
  after the assignment of line 12 and before the listener of line 20 is installed.
  (Inside the guard \<open>savedUser\<close> is a string; the \<open>None\<close> case of its reading is not
  reachable.)
  The two requests are those of \<open>loadChatHistory\<close> and \<open>loadDocuments\<close>.
\<close>

definition DOMContentLoaded ::
  "(string \<Rightarrow> json option) \<Rightarrow> app_state \<Rightarrow> app_state \<times> (js_error + request list)" where
  "DOMContentLoaded JSON_parse s =
     (let savedToken = localStorage s ''authToken'';
          savedUser = localStorage s ''currentUser''
      in if truthy savedToken \<and> truthy savedUser then
           (let s1 = s\<lparr>authToken := savedToken\<rparr>
            in case JSON_parse (case savedUser of Some txt \<Rightarrow> txt | None \<Rightarrow> []) of
                 None \<Rightarrow> (s1, Inl SyntaxError)
               | Some u \<Rightarrow>
                   (let s2 = showMainApp (s1\<lparr>currentUser := u\<rparr>)
                    in (s2\<lparr>enter_listener := True\<rparr>,
                        Inr [History (bearer (authToken s2)) 20,
                             ListDocuments (bearer (authToken s2))])))
         else (s\<lparr>enter_listener := True\<rparr>, Inr []))"


definition handleLogin_resume ::
  "(json \<Rightarrow> string) \<Rightarrow> app_state \<Rightarrow> login_result fetched \<Rightarrow> app_state \<times> request list" where
  "handleLogin_resume JSON_stringify s r =
     (case r of
        Failed \<Rightarrow> (showLoading False (showMessage ''Network error. Please try again.'' Error s), [])
      | Fetched ok result \<Rightarrow>
          if ok then
            (let s1 = s\<lparr>authToken := Some (access_token result), currentUser := user_info result\<rparr>;
                 s2 = s1\<lparr>localStorage := (localStorage s1)(''authToken'' \<mapsto> access_token result)\<rparr>;
                 s3 = s2\<lparr>localStorage :=
                           (localStorage s2)(''currentUser'' \<mapsto> JSON_stringify (currentUser s2))\<rparr>;
                 s4 = showMainApp s3
             in (showLoading False s4,
                 [History (bearer (authToken s4)) 20, ListDocuments (bearer (authToken s4))]))
          else
            (showLoading False (showMessage (or_else (login_detail result) ''Login failed'') Error s),
             []))"

text \<open>The document list and the form fields that \<open>logout\<close> also clears are not part of the state.\<close>

definition logout :: "app_state \<Rightarrow> app_state" where
  "logout s =
     s\<lparr>authToken := None, currentUser := JNull,
       localStorage := ((localStorage s)(''authToken'' := None))(''currentUser'' := None),
       auth_section_display := ''flex'', main_section_display := ''none'',
       chat_messages := []\<rparr>"

subsection \<open>Registration (lines 87-105)\<close>

definition handleRegister ::
  "string \<Rightarrow> string \<Rightarrow> string \<Rightarrow> string \<Rightarrow> app_state \<Rightarrow> app_state \<times> request option" where
  "handleRegister username email fullName password s =
     (if username = [] \<or> email = [] \<or> fullName = [] \<or> password = [] then
        (showMessage ''Please fill in all fields'' Error s, None)
      else if length password < 6 then
        (showMessage ''Password must be at least 6 characters'' Error s, None)
      else (showLoading True s, Some (Register username email fullName password)))"

subsection \<open>Upload (lines 166-192)\<close>



subsection \<open>Chat (lines 238-274, 302-344)\<close>

definition sendMessage :: "app_state \<Rightarrow> app_state \<times> request option" where
  "sendMessage s =
     (let msg = trim (chat_input s)
      in if msg = [] then (s, None)
         else
           (let s1 = s\<lparr>chat_input := [], send_btn_disabled := True\<rparr>;
                s2 = addMessage User msg None s1
            in (s2, Some (Ask (bearer (authToken s2)) msg 5))))"

definition sendMessage_resume :: "app_state \<Rightarrow> ask_result fetched \<Rightarrow> app_state" where
  "sendMessage_resume s r =
     (let s1 = (case r of
                  Failed \<Rightarrow>
                    addMessage Assistant
                      (ascii ''Sorry, there was a connection error. Please try again.'') None s
                | Fetched ok result \<Rightarrow>
                    if ok then addMessage Assistant (answer result) (ask_sources result) s
                    else addMessage Assistant (error_text (ask_detail result)) None s)
      in s1\<lparr>send_btn_disabled := False\<rparr>)"

definition loadChatHistory :: "app_state \<Rightarrow> app_state \<times> request option" where
  "loadChatHistory s = (s, Some (History (bearer (authToken s)) 20))"

text \<open>One round of the \<open>forEach\<close> of lines 316-319.\<close>

definition add_history_item :: "app_state \<Rightarrow> history_item \<Rightarrow> app_state" where
  "add_history_item s item =
     addMessage Assistant (item_response item) (item_sources item)
       (addMessage User (item_message item) None s)"

definition loadChatHistory_resume :: "app_state \<Rightarrow> history_result fetched \<Rightarrow> app_state" where
  "loadChatHistory_resume s r =
     (case r of
        Failed \<Rightarrow> s
      | Fetched ok result \<Rightarrow>
          (case history result of
             None \<Rightarrow> s
           | Some items \<Rightarrow>
               if length items > 0 then foldl add_history_item (s\<lparr>chat_messages := []\<rparr>) items
               else s))"

definition clearChatHistory :: "bool \<Rightarrow> app_state \<Rightarrow> app_state \<times> request option" where
  "clearChatHistory confirmed s =
     (if \<not> confirmed then (s, None) else (s, Some (Clear (bearer (authToken s)))))"

definition clearChatHistory_resume :: "app_state \<Rightarrow> unit fetched \<Rightarrow> app_state" where
  "clearChatHistory_resume s r =
     (case r of
        Failed \<Rightarrow>
          addMessage System (ascii ''Error clearing chat history. Please try again.'') None s
      | Fetched ok body \<Rightarrow>
          if ok then
            addMessage System (ascii ''Chat history cleared successfully!'') None
              (s\<lparr>chat_messages := []\<rparr>)
          else s)"

subsection \<open>Handlers as events\<close>






subsection \<open>What the properties are stated with\<close>

text \<open>
  The outcome of the startup handler on a freshly loaded page, as the session it leaves
  in the two globals: a session, none, or the uncaught error.
\<close>

datatype restored = Session string json | Absent | Thrown js_error

definition restore :: "(string \<Rightarrow> json option) \<Rightarrow> (string \<rightharpoonup> string) \<Rightarrow> restored" where
  "restore JSON_parse storage =
     (case DOMContentLoaded JSON_parse (page_load storage) of
        (s, Inl e) \<Rightarrow> Thrown e
      | (s, Inr reqs) \<Rightarrow>
          (case authToken s of None \<Rightarrow> Absent | Some t \<Rightarrow> Session t (currentUser s)))"

text \<open>Credential and identity are both set or both absent: in the globals, in the storage.\<close>

definition session_paired :: "app_state \<Rightarrow> bool" where
  "session_paired s = ((authToken s \<noteq> None) = (currentUser s \<noteq> JNull))"

definition storage_paired :: "(string \<rightharpoonup> string) \<Rightarrow> bool" where
  "storage_paired storage = ((storage ''authToken'' \<noteq> None) = (storage ''currentUser'' \<noteq> None))"

text \<open>
  Modelled from the spec: the markup of the page is not among the sources, so where the
  banner \<open>#auth-message\<close> sits in the document is not known from them. The
  specification's UIState holds \<open>authMessage\<close>, a text and a kind or absent, and its
  presentation surface is a projection of that state: the user sees the message that the
  banner holds, for as long as it holds one.
\<close>

definition user_visible_message :: "app_state \<Rightarrow> (string \<times> message_kind) option" where
  "user_visible_message s = auth_message s"


text \<open>
  The reconstruction of a history as the specification words it: for each item, in
  order, a user message from the question, then an assistant message with the response
  and its sources.
\<close>

fun reconstruct :: "history_item list \<Rightarrow> message list" where
  "reconstruct [] = []"
| "reconstruct (item # items) =
     \<lparr>msg_role = User, msg_content = item_message item, msg_sources = []\<rparr> #
     \<lparr>msg_role = Assistant, msg_content = item_response item,
      msg_sources = (case item_sources item of None \<Rightarrow> [] | Some xs \<Rightarrow> xs)\<rparr> #
     reconstruct items"

subsection \<open>Values for the examples\<close>

definition ada :: json where
  "ada = JObj [(''full_name'', JStr ''Ada'')]"

text \<open>
  \<open>JSON.stringify\<close> and \<open>JSON.parse\<close> on the values and texts of the examples:
  the identity \<open>ada\<close> and \<open>null\<close>. Any other text stands for a malformed one.
\<close>

definition example_stringify :: "json \<Rightarrow> string" where
  \<open>example_stringify v = (if v = ada then ''{"full_name":"Ada"}'' else ''null'')\<close>

definition example_parse :: "string \<Rightarrow> json option" where
  \<open>example_parse txt =
     (if txt = ''{"full_name":"Ada"}'' then Some ada
      else if txt = ''null'' then Some JNull
      else None)\<close>

definition src1 :: source where
  "src1 = \<lparr>filename = ''guide.pdf'', similarity = 1 / 2, content_preview = ''Rest and fluids''\<rparr>"

text \<open>A logged-in page with one message on screen.\<close>

definition signed_in :: app_state where
  "signed_in =
     (showMainApp (page_load [''authToken'' \<mapsto> ''tok1'', ''currentUser'' \<mapsto> example_stringify ada]))
       \<lparr>authToken := Some ''tok1'', currentUser := ada, enter_listener := True,
        chat_messages := [\<lparr>msg_role = System, msg_content = ascii ''Welcome'', msg_sources = []\<rparr>]\<rparr>"

section \<open>Properties\<close>

subsection \<open>Trimming\<close>

lemma dropWhile_all: "list_all P xs \<Longrightarrow> dropWhile P xs = []"
  by (induction xs) auto

lemma dropWhile_rest_all: "list_all P (dropWhile P xs) \<longleftrightarrow> list_all P xs"
  by (induction xs) auto

lemma trim_blank: "list_all white_space txt \<Longrightarrow> trim txt = []"
  by (simp add: trim_def dropWhile_all)

lemma trim_empty_iff: "trim txt = [] \<longleftrightarrow> list_all white_space txt"
proof -
  have "trim txt = [] \<longleftrightarrow> list_all white_space (rev (dropWhile white_space txt))"
    by (simp add: trim_def dropWhile_eq_Nil_conv list_all_iff)
  also have "\<dots> \<longleftrightarrow> list_all white_space (dropWhile white_space txt)"
    by (simp add: list_all_iff)
  finally show ?thesis by (simp add: dropWhile_rest_all)
qed

subsection \<open>Startup restore\<close>

text \<open>
  What does hold of the startup handler: it leaves a session only when both entries are
  stored, non-empty, and the identity text parses; with an entry missing or empty it
  leaves none and ends normally.
\<close>

lemma restore_session_only_if:
  "restore JSON_parse storage = Session t v \<Longrightarrow>
   storage ''authToken'' = Some t \<and> t \<noteq> [] \<and>
   (\<exists>u. storage ''currentUser'' = Some u \<and> u \<noteq> [] \<and> JSON_parse u = Some v)"
  by (auto simp: restore_def DOMContentLoaded_def page_load_def showMainApp_def truthy_def Let_def
      split: if_splits option.splits)

lemma restore_session_if:
  "storage ''authToken'' = Some t \<Longrightarrow> t \<noteq> [] \<Longrightarrow> storage ''currentUser'' = Some u \<Longrightarrow>
   u \<noteq> [] \<Longrightarrow> JSON_parse u = Some v \<Longrightarrow> restore JSON_parse storage = Session t v"
  by (simp add: restore_def DOMContentLoaded_def page_load_def showMainApp_def truthy_def Let_def)

lemma restore_absent:
  "\<not> truthy (storage ''authToken'') \<or> \<not> truthy (storage ''currentUser'') \<Longrightarrow>
   restore JSON_parse storage = Absent"
  by (auto simp: restore_def DOMContentLoaded_def page_load_def Let_def)

text \<open>
  C1: restore returns a session only if both entries are present and the identity parses,
  and otherwise returns absent without throwing. The handler does not do the second half:
  with both entries stored and an identity text that \<open>JSON.parse\<close> rejects, the
  \<open>SyntaxError\<close> leaves the handler uncaught, after the credential has been assigned
  and before the Enter-key listener is installed.
\<close>

theorem restore_throws_on_malformed_identity:
  "storage ''authToken'' = Some t \<Longrightarrow> t \<noteq> [] \<Longrightarrow> storage ''currentUser'' = Some u \<Longrightarrow>
   u \<noteq> [] \<Longrightarrow> JSON_parse u = None \<Longrightarrow>
   DOMContentLoaded JSON_parse (page_load storage) =
     ((page_load storage)\<lparr>authToken := Some t\<rparr>, Inl SyntaxError) \<and>
   restore JSON_parse storage = Thrown SyntaxError"
  by (simp add: restore_def DOMContentLoaded_def page_load_def truthy_def Let_def)

theorem restore_throws_witness:
  "example_parse ''{bad'' = None \<and>
   DOMContentLoaded example_parse (page_load [''authToken'' \<mapsto> ''tok1'', ''currentUser'' \<mapsto> ''{bad'']) =
     ((page_load [''authToken'' \<mapsto> ''tok1'', ''currentUser'' \<mapsto> ''{bad''])\<lparr>authToken := Some ''tok1''\<rparr>,
      Inl SyntaxError) \<and>
   restore example_parse [''authToken'' \<mapsto> ''tok1'', ''currentUser'' \<mapsto> ''{bad''] = Thrown SyntaxError"
proof -
  have bad: "example_parse ''{bad'' = None"
    by (simp add: example_parse_def)
  from restore_throws_on_malformed_identity
         [of "[''authToken'' \<mapsto> ''tok1'', ''currentUser'' \<mapsto> ''{bad'']" "''tok1''" "''{bad''"
             example_parse, OF _ _ _ _ bad]
  show ?thesis using bad by simp
qed

subsection \<open>Credential and identity together\<close>

lemma logout_keeps_pairing:
  "session_paired (logout s) \<and> storage_paired (localStorage (logout s))"
  by (simp add: session_paired_def storage_paired_def logout_def)

lemma login_keeps_pairing:
  "user_info result \<noteq> JNull \<Longrightarrow>
   session_paired (fst (handleLogin_resume JSON_stringify s (Fetched True result))) \<and>
   storage_paired (localStorage (fst (handleLogin_resume JSON_stringify s (Fetched True result))))"
  by (simp add: session_paired_def storage_paired_def handleLogin_resume_def showMainApp_def
      showLoading_def Let_def)

lemma restore_keeps_pairing_when_parsed:
  "storage ''currentUser'' = Some u \<Longrightarrow> JSON_parse u = Some v \<Longrightarrow> v \<noteq> JNull \<Longrightarrow>
   session_paired (fst (DOMContentLoaded JSON_parse (page_load storage)))"
  by (auto simp: session_paired_def DOMContentLoaded_def page_load_def showMainApp_def truthy_def
      Let_def split: option.splits)

text \<open>A login response whose \<open>user_info\<close> is \<open>null\<close> sets the credential alone.\<close>

lemma login_null_identity_unpairs:
  "user_info result = JNull \<Longrightarrow>
   \<not> session_paired (fst (handleLogin_resume JSON_stringify s (Fetched True result)))"
  by (simp add: session_paired_def handleLogin_resume_def showMainApp_def showLoading_def Let_def)

text \<open>
  C8: login, logout and startup restore keep credential and identity set together or
  absent together, in the globals and in the storage. Logout does, and so does a
  successful login whose \<open>user_info\<close> is not \<open>null\<close> (the lemmas above). Startup
  restore does not: from a storage that holds both entries, an identity text that does
  not parse, or that parses to \<open>null\<close>, leaves the credential set and the identity
  \<open>null\<close>.
\<close>

theorem restore_leaves_credential_without_identity:
  "storage ''authToken'' = Some t \<Longrightarrow> t \<noteq> [] \<Longrightarrow> storage ''currentUser'' = Some u \<Longrightarrow>
   u \<noteq> [] \<Longrightarrow> JSON_parse u = None \<or> JSON_parse u = Some JNull \<Longrightarrow>
   storage_paired storage \<and>
   session_paired (page_load storage) \<and>
   authToken (fst (DOMContentLoaded JSON_parse (page_load storage))) = Some t \<and>
   currentUser (fst (DOMContentLoaded JSON_parse (page_load storage))) = JNull \<and>
   \<not> session_paired (fst (DOMContentLoaded JSON_parse (page_load storage)))"
  by (auto simp: session_paired_def storage_paired_def DOMContentLoaded_def page_load_def
      showMainApp_def truthy_def Let_def)

theorem restore_pairing_witness:
  "(example_parse ''{bad'' = None \<or> example_parse ''{bad'' = Some JNull) \<and>
   storage_paired [''authToken'' \<mapsto> ''tok1'', ''currentUser'' \<mapsto> ''{bad''] \<and>
   authToken (fst (DOMContentLoaded example_parse
      (page_load [''authToken'' \<mapsto> ''tok1'', ''currentUser'' \<mapsto> ''{bad'']))) = Some ''tok1'' \<and>
   currentUser (fst (DOMContentLoaded example_parse
      (page_load [''authToken'' \<mapsto> ''tok1'', ''currentUser'' \<mapsto> ''{bad'']))) = JNull \<and>
   \<not> session_paired (fst (DOMContentLoaded example_parse
      (page_load [''authToken'' \<mapsto> ''tok1'', ''currentUser'' \<mapsto> ''{bad''])))"
proof -
  have bad: "example_parse ''{bad'' = None \<or> example_parse ''{bad'' = Some JNull"
    by (simp add: example_parse_def)
  from restore_leaves_credential_without_identity
         [of "[''authToken'' \<mapsto> ''tok1'', ''currentUser'' \<mapsto> ''{bad'']" "''tok1''" "''{bad''"
             example_parse, OF _ _ _ _ bad]
  show ?thesis using bad by simp
qed

subsection \<open>Save, then restore\<close>

text \<open>
  C9, as amended: for every session with a non-empty credential and an identity that
  \<open>JSON.stringify\<close> writes as a non-empty text which \<open>JSON.parse\<close> reads back, saving it
  (lines 67-72) and then restoring on a fresh page load yields that session.
\<close>

theorem save_then_restore:
  "t \<noteq> [] \<Longrightarrow> JSON_stringify u \<noteq> [] \<Longrightarrow> JSON_parse (JSON_stringify u) = Some u \<Longrightarrow>
   authToken (fst (handleLogin_resume JSON_stringify s
      (Fetched True \<lparr>access_token = t, user_info = u, login_detail = d\<rparr>))) = Some t \<and>
   currentUser (fst (handleLogin_resume JSON_stringify s
      (Fetched True \<lparr>access_token = t, user_info = u, login_detail = d\<rparr>))) = u \<and>
   restore JSON_parse (localStorage (fst (handleLogin_resume JSON_stringify s
      (Fetched True \<lparr>access_token = t, user_info = u, login_detail = d\<rparr>)))) = Session t u"
  by (simp add: restore_def DOMContentLoaded_def page_load_def showMainApp_def truthy_def
      handleLogin_resume_def showLoading_def Let_def)

theorem save_then_restore_witness:
  "''tok1'' \<noteq> [] \<and> example_stringify ada \<noteq> [] \<and>
   example_parse (example_stringify ada) = Some ada \<and>
   restore example_parse (localStorage (fst (handleLogin_resume example_stringify (page_load Map.empty)
      (Fetched True \<lparr>access_token = ''tok1'', user_info = ada, login_detail = None\<rparr>)))) =
     Session ''tok1'' ada"
proof -
  have a: "''tok1'' \<noteq> []" by simp
  have b: "example_stringify ada \<noteq> []" by (simp add: example_stringify_def)
  have c: "example_parse (example_stringify ada) = Some ada"
    by (simp add: example_stringify_def example_parse_def)
  from save_then_restore
         [of "''tok1''" example_stringify ada example_parse "page_load Map.empty" None, OF a b c]
       a b c
  show ?thesis by blast
qed

text \<open>
  The claim as it stands fails for the empty credential: it is written to the storage,
  and the guard of line 11 reads the empty string as no credential, whatever the identity.
\<close>

lemma empty_credential_not_restored:
  "restore JSON_parse (localStorage (fst (handleLogin_resume JSON_stringify s
      (Fetched True \<lparr>access_token = [], user_info = u, login_detail = d\<rparr>)))) = Absent"
  by (simp add: restore_def DOMContentLoaded_def page_load_def showMainApp_def truthy_def
      handleLogin_resume_def showLoading_def Let_def)


theorem empty_credential_counterexample:
  "example_parse (example_stringify ada) = Some ada \<and>
   restore example_parse (localStorage (fst (handleLogin_resume example_stringify (page_load Map.empty)
      (Fetched True \<lparr>access_token = [], user_info = ada, login_detail = None\<rparr>)))) = Absent \<and>
   restore example_parse (localStorage (fst (handleLogin_resume example_stringify (page_load Map.empty)
      (Fetched True \<lparr>access_token = [], user_info = ada, login_detail = None\<rparr>)))) \<noteq> Session [] ada"
  by (simp add: restore_def DOMContentLoaded_def page_load_def showMainApp_def truthy_def
      handleLogin_resume_def showLoading_def Let_def example_stringify_def example_parse_def)

subsection \<open>Asking a question\<close>

text \<open>
  C7: a question text that is empty or consists of white space only (any of the code
  units that \<open>trim\<close> removes) is a no-op: the state is returned as it was (no message
  appended, the submission control as it was, the input untouched) and no request is
  issued.
\<close>

theorem blank_question_is_noop:
  "list_all white_space (chat_input s) \<Longrightarrow> sendMessage s = (s, None)"
  by (simp add: sendMessage_def trim_blank)

theorem blank_question_is_noop_witness:
  "list_all white_space (chat_input (signed_in\<lparr>chat_input := [0x20, 0xA0, 0x09, 0x3000, 0x0A]\<rparr>)) \<and>
   sendMessage (signed_in\<lparr>chat_input := [0x20, 0xA0, 0x09, 0x3000, 0x0A]\<rparr>) =
     (signed_in\<lparr>chat_input := [0x20, 0xA0, 0x09, 0x3000, 0x0A]\<rparr>, None)"
proof -
  have blank:
    "list_all white_space (chat_input (signed_in\<lparr>chat_input := [0x20, 0xA0, 0x09, 0x3000, 0x0A]\<rparr>))"
    by (simp add: white_space_def)
  from blank blank_question_is_noop [OF blank] show ?thesis by simp
qed

text \<open>Only a text with something else than white space in it is sent.\<close>

lemma question_sent_iff:
  "snd (sendMessage s) = None \<longleftrightarrow> list_all white_space (chat_input s)"
  by (simp add: sendMessage_def Let_def trim_empty_iff)












text \<open>
  C2, as amended: a response that arrives after logout is applied like any other. The
  script keeps nothing of the session that issued a request and compares nothing on
  arrival: an assistant message built from the response (the answer with its sources, the
  rejection detail, or the connection-error text) is appended to the message list that
  logout emptied, and the submission control is enabled; the session stays logged out.
\<close>

theorem response_after_logout_is_applied:
  "chat_messages (sendMessage_resume (logout s) Failed) =
     [\<lparr>msg_role = Assistant,
       msg_content = ascii ''Sorry, there was a connection error. Please try again.'',
       msg_sources = []\<rparr>] \<and>
   chat_messages (sendMessage_resume (logout s) (Fetched True result)) =
     [\<lparr>msg_role = Assistant, msg_content = answer result,
       msg_sources = (case ask_sources result of None \<Rightarrow> [] | Some xs \<Rightarrow> xs)\<rparr>] \<and>
   chat_messages (sendMessage_resume (logout s) (Fetched False result)) =
     [\<lparr>msg_role = Assistant, msg_content = error_text (ask_detail result), msg_sources = []\<rparr>] \<and>
   send_btn_disabled (sendMessage_resume (logout s) r) = False \<and>
   authToken (sendMessage_resume (logout s) r) = None \<and>
   currentUser (sendMessage_resume (logout s) r) = JNull"
  by (simp add: sendMessage_resume_def logout_def addMessage_def split: fetched.splits)

text \<open>
  The claim as it stands fails: a question is asked with the credential \<open>tok1\<close>, the
  user logs out, the answer arrives and is shown.
\<close>

theorem stale_response_counterexample:
  "snd (sendMessage (signed_in\<lparr>chat_input := ascii ''Q1''\<rparr>)) =
     Some (Ask ''Bearer tok1'' (ascii ''Q1'') 5) \<and>
   authToken (logout (fst (sendMessage (signed_in\<lparr>chat_input := ascii ''Q1''\<rparr>)))) = None \<and>
   chat_messages (logout (fst (sendMessage (signed_in\<lparr>chat_input := ascii ''Q1''\<rparr>)))) = [] \<and>
   chat_messages
     (sendMessage_resume (logout (fst (sendMessage (signed_in\<lparr>chat_input := ascii ''Q1''\<rparr>))))
        (Fetched True \<lparr>answer = ascii ''A1'', ask_sources = Some [src1], ask_detail = None\<rparr>)) =
     [\<lparr>msg_role = Assistant, msg_content = ascii ''A1'', msg_sources = [src1]\<rparr>] \<and>
   sendMessage_resume (logout (fst (sendMessage (signed_in\<lparr>chat_input := ascii ''Q1''\<rparr>))))
        (Fetched True \<lparr>answer = ascii ''A1'', ask_sources = Some [src1], ask_detail = None\<rparr>) \<noteq>
     logout (fst (sendMessage (signed_in\<lparr>chat_input := ascii ''Q1''\<rparr>)))"
proof -
  let ?s = "logout (fst (sendMessage (signed_in\<lparr>chat_input := ascii ''Q1''\<rparr>)))"
  let ?r = "Fetched True \<lparr>answer = ascii ''A1'', ask_sources = Some [src1], ask_detail = None\<rparr>"
  have q: "trim (ascii ''Q1'') = ascii ''Q1''"
    by (simp add: trim_def white_space_def ascii_def)
  have a: "ascii ''Q1'' \<noteq> []"
    by (simp add: ascii_def)
  have issued: "snd (sendMessage (signed_in\<lparr>chat_input := ascii ''Q1''\<rparr>)) =
      Some (Ask ''Bearer tok1'' (ascii ''Q1'') 5)"
    by (simp add: sendMessage_def q a Let_def addMessage_def bearer_def signed_in_def)
  have out: "authToken ?s = None" by (simp add: logout_def)
  have none: "chat_messages ?s = []" by (simp add: logout_def)
  have one: "chat_messages (sendMessage_resume ?s ?r) =
      [\<lparr>msg_role = Assistant, msg_content = ascii ''A1'', msg_sources = [src1]\<rparr>]"
    by (simp add: sendMessage_resume_def logout_def addMessage_def)
  from none one have "chat_messages (sendMessage_resume ?s ?r) \<noteq> chat_messages ?s" by simp
  then have changed: "sendMessage_resume ?s ?r \<noteq> ?s" by metis
  show ?thesis
    by (intro conjI) (rule issued out none one changed)+
qed

subsection \<open>History\<close>

lemma foldl_add_history_item:
  "foldl add_history_item s items = s\<lparr>chat_messages := chat_messages s @ reconstruct items\<rparr>"
  by (induction items arbitrary: s) (simp_all add: add_history_item_def addMessage_def)

text \<open>
  C4, as amended: for every non-empty history list in the response, the visible message
  list is replaced by the reconstruction of the history (for each item in order, a user
  message from the question, then an assistant message with the response and sources),
  and nothing else changes. For the empty history list the handler does nothing: the
  visible message list stays as it was.
\<close>

theorem history_rebuilds_unless_empty:
  "loadChatHistory_resume s (Fetched ok \<lparr>history = Some items\<rparr>) =
     (if items = [] then s else s\<lparr>chat_messages := reconstruct items\<rparr>)"
  by (simp add: loadChatHistory_resume_def foldl_add_history_item)

theorem history_example:
  "chat_messages (loadChatHistory_resume signed_in (Fetched True \<lparr>history = Some
      [\<lparr>item_message = ascii ''Q1'', item_response = ascii ''A1'', item_sources = Some []\<rparr>,
       \<lparr>item_message = ascii ''Q2'', item_response = ascii ''A2'', item_sources = Some [src1]\<rparr>]\<rparr>)) =
   [\<lparr>msg_role = User, msg_content = ascii ''Q1'', msg_sources = []\<rparr>,
    \<lparr>msg_role = Assistant, msg_content = ascii ''A1'', msg_sources = []\<rparr>,
    \<lparr>msg_role = User, msg_content = ascii ''Q2'', msg_sources = []\<rparr>,
    \<lparr>msg_role = Assistant, msg_content = ascii ''A2'', msg_sources = [src1]\<rparr>]"
  by (simp add: history_rebuilds_unless_empty)

text \<open>
  The claim as it stands fails for the empty history: the message on screen is not
  replaced by the empty reconstruction.
\<close>

theorem empty_history_counterexample:
  "chat_messages signed_in =
     [\<lparr>msg_role = System, msg_content = ascii ''Welcome'', msg_sources = []\<rparr>] \<and>
   chat_messages (loadChatHistory_resume signed_in (Fetched True \<lparr>history = Some []\<rparr>)) =
     [\<lparr>msg_role = System, msg_content = ascii ''Welcome'', msg_sources = []\<rparr>] \<and>
   chat_messages (loadChatHistory_resume signed_in (Fetched True \<lparr>history = Some []\<rparr>)) \<noteq>
     reconstruct []"
  by (simp add: loadChatHistory_resume_def signed_in_def)

lemma clear_success:
  "chat_messages (clearChatHistory_resume s (Fetched True body)) =
     [\<lparr>msg_role = System, msg_content = ascii ''Chat history cleared successfully!'',
       msg_sources = []\<rparr>]"
  by (simp add: clearChatHistory_resume_def addMessage_def)

lemma clear_transport_failure:
  "chat_messages (clearChatHistory_resume s Failed) =
     chat_messages s @
     [\<lparr>msg_role = System,
       msg_content = ascii ''Error clearing chat history. Please try again.'',
       msg_sources = []\<rparr>]"
  by (simp add: clearChatHistory_resume_def addMessage_def)

lemma clear_needs_confirmation: "clearChatHistory False s = (s, None)"
  by (simp add: clearChatHistory_def)

text \<open>
  C5: after confirmation, a successful clear empties the list and appends a system
  confirmation; every failure appends a system error message and keeps the prior
  messages. Success and transport failure do so (the lemmas above). A rejection does
  not: on a response whose status is not a success the handler has no branch, and the
  state is left exactly as it was, with no message appended.
\<close>

theorem clear_rejected_is_silent:
  "clearChatHistory_resume s (Fetched False body) = s"
  by (simp add: clearChatHistory_resume_def)

subsection \<open>Upload\<close>




subsection \<open>Registration\<close>

text \<open>
  C10: registration validates before any request: when the username, the email, the full
  name or the password is empty, or the password has fewer than 6 characters, no request
  is issued and an error message is shown: the banner is set to the text of the failed
  check with the kind of an error, which is the message the user sees, and nothing else
  of the page changes.
\<close>

theorem register_validates_first:
  "username = [] \<or> email = [] \<or> fullName = [] \<or> password = [] \<or> length password < 6 \<Longrightarrow>
   handleRegister username email fullName password s =
     (s\<lparr>auth_message :=
          Some (if username = [] \<or> email = [] \<or> fullName = [] \<or> password = []
                then ''Please fill in all fields''
                else ''Password must be at least 6 characters'', Error)\<rparr>,
      None) \<and>
   user_visible_message (fst (handleRegister username email fullName password s)) =
     Some (if username = [] \<or> email = [] \<or> fullName = [] \<or> password = []
           then ''Please fill in all fields''
           else ''Password must be at least 6 characters'', Error)"
  by (auto simp: handleRegister_def showMessage_def user_visible_message_def)

theorem register_validates_first_witness:
  "(''ada'' = [] \<or> ''ada@example.org'' = [] \<or> ''Ada L'' = [] \<or> ''12345'' = [] \<or>
      length ''12345'' < 6) \<and>
   handleRegister ''ada'' ''ada@example.org'' ''Ada L'' ''12345'' (page_load Map.empty) =
     ((page_load Map.empty)
        \<lparr>auth_message := Some (''Password must be at least 6 characters'', Error)\<rparr>, None) \<and>
   user_visible_message (page_load Map.empty) = None \<and>
   user_visible_message
     (fst (handleRegister ''ada'' ''ada@example.org'' ''Ada L'' ''12345'' (page_load Map.empty))) =
     Some (''Password must be at least 6 characters'', Error) \<and>
   handleRegister ''ada'' ''ada@example.org'' [] ''123456'' (page_load Map.empty) =
     ((page_load Map.empty)\<lparr>auth_message := Some (''Please fill in all fields'', Error)\<rparr>, None)"
proof -
  have before: "user_visible_message (page_load Map.empty) = None"
    by (simp add: user_visible_message_def page_load_def)
  from register_validates_first
         [of "''ada''" "''ada@example.org''" "''Ada L''" "''12345''" "page_load Map.empty"]
       register_validates_first
         [of "''ada''" "''ada@example.org''" "[]" "''123456''" "page_load Map.empty"]
       before
  show ?thesis by (simp add: user_visible_message_def)
qed

lemma register_sends_otherwise:
  "username \<noteq> [] \<Longrightarrow> email \<noteq> [] \<Longrightarrow> fullName \<noteq> [] \<Longrightarrow> 6 \<le> length password \<Longrightarrow>
   handleRegister username email fullName password s =
     (s\<lparr>loading := True\<rparr>, Some (Register username email fullName password))"
  by (auto simp: handleRegister_def showLoading_def)

end
